theory Spec2Isabelle
  imports Complex_Main "HOL-Library.Sublist"
begin

section \<open>PipeVision: drawing ingestion, classification and export\<close>

text \<open>
  A shallow embedding of \<^verbatim>\<open>app/processing/dwg_parser.py\<close>,
  \<^verbatim>\<open>app/processing/exporters.py\<close> and \<^verbatim>\<open>app/processing/fbx_exporter.py\<close>.

  Conventions of the embedding.
  \<^item> Python floats are modelled by the real numbers they denote. The functions below only
    compare, negate, halve, add and take absolute values of coordinates, and take square
    roots for segment lengths; NaN and the infinities are outside the model.
  \<^item> Python strings are \<open>string\<close>; \<^verbatim>\<open>str.upper\<close> is modelled on ASCII letters, so layer
    names are taken to be ASCII.
  \<^item> A Python \<^verbatim>\<open>dict\<close> keeps insertion order; the keyword table is therefore an
    association list in the order the source writes it.
  \<^item> Everything the code obtains from a library or from the operating system (the parsed
    document, the probe of the Blender executable, the outcome of a subprocess, whether a
    file could be written) is an explicit input of the model.
\<close>

subsection \<open>The parsed drawing, as the ezdxf library hands it over\<close>

type_synonym vec3 = "real \<times> real \<times> real"

text \<open>
  The entity classes that \<^verbatim>\<open>_extract_single_entity\<close> tests with \<^verbatim>\<open>isinstance\<close>.
  \<open>LWPolyline\<close> carries the tuples of \<^verbatim>\<open>get_points(format='xyseb')\<close>. \<open>Insert\<close> and
  \<open>Unsupported\<close> are the classes that fall into the final \<^verbatim>\<open>else\<close>; \<open>Malformed\<close> is an
  entity on which an attribute access raises inside the \<^verbatim>\<open>try\<close> block. A constructor
  names the branch of the \<^verbatim>\<open>if\<close>/\<^verbatim>\<open>elif\<close> chain that the entity takes.
\<close>

datatype dxf_geometry =
    Line vec3 vec3
  | LWPolyline "(real \<times> real \<times> real \<times> real \<times> real) list" bool
  | Polyline "vec3 list" bool
  | Circle vec3 real
  | Arc vec3 real real real
  | Insert string real
  | Unsupported
  | Malformed

record dxf_entity =
  dxf_handle :: string
  dxf_layer :: string
  dxftype :: string
  dxf_geom :: dxf_geometry

record dxf_layer_entry =
  ly_name :: string
  ly_color :: int
  ly_is_on :: bool
  ly_is_frozen :: bool
  ly_linetype :: string

text \<open>
  The document, as far as the parser reads it: the version, the \<^verbatim>\<open>$INSUNITS\<close> code
  (0 when the header has none), the layer table, the modelspace, the coordinate-system
  definition of the geodata object if there is one, the header variables that hold
  strings, and \<open>doc_ucs_rotation\<close>, the angle
  \<^verbatim>\<open>math.degrees(math.atan2(angle[1], angle[0]))\<close> of the \<^verbatim>\<open>$UCSXDIR\<close> vector
  (\<open>None\<close> when the header has no such vector or reading it raises).
\<close>

record dxf_document =
  doc_dxfversion :: string
  doc_insunits :: int
  doc_layers :: "dxf_layer_entry list"
  doc_modelspace :: "dxf_entity list"
  doc_geodata :: "string option"
  doc_header :: "string \<rightharpoonup> string"
  doc_ucs_rotation :: "real option"

subsection \<open>ExtractedEntity and ParseResult\<close>

datatype prop_value = PBool bool | PNum real

record ExtractedEntity =
  handle :: string
  entity_type :: string
  layer :: string
  points :: "vec3 list"
  properties :: "(string \<times> prop_value) list"
  suggested_type :: "string option"
  has_depth :: bool
  depth_values :: "real list"

record ParseResult =
  success :: bool
  filename :: string
  dxf_version :: "string option"
  units :: "string option"
  has_crs :: bool
  detected_crs :: "string option"
  result_has_depth :: bool
  has_rotation :: bool
  rotation_degrees :: real
  layers :: "dxf_layer_entry list"
  entities :: "ExtractedEntity list"
  min_x :: "real option"
  min_y :: "real option"
  max_x :: "real option"
  max_y :: "real option"
  missing_fields :: "string list"
  errors :: "string list"
  warnings :: "string list"

text \<open>\<^verbatim>\<open>ParseResult(success=False, filename=...)\<close> with the dataclass defaults.
  The field \<^verbatim>\<open>ParseResult.has_depth\<close> is \<open>result_has_depth\<close> here, to keep it apart
  from \<^verbatim>\<open>ExtractedEntity.has_depth\<close>.\<close>

definition new_ParseResult :: "string \<Rightarrow> ParseResult" where
  "new_ParseResult fname =
     \<lparr> success = False, filename = fname, dxf_version = None, units = None,
       has_crs = False, detected_crs = None, result_has_depth = False,
       has_rotation = False, rotation_degrees = 0, layers = [], entities = [],
       min_x = None, min_y = None, max_x = None, max_y = None,
       missing_fields = [], errors = [], warnings = [] \<rparr>"

subsection \<open>DWGParser\<close>

text \<open>\<^verbatim>\<open>ASSET_TYPE_KEYWORDS\<close>, in the order of the dictionary literal.\<close>

definition ASSET_TYPE_KEYWORDS :: "(string \<times> string list) list" where
  "ASSET_TYPE_KEYWORDS =
     [(''sewer'', [''sewer'', ''san'', ''sanitary'', ''ss'', ''swr'']),
      (''storm'', [''storm'', ''drain'', ''sd'', ''stm'', ''drainage'']),
      (''potable'', [''water'', ''potable'', ''wtr'', ''wm'', ''domestic'']),
      (''gas'', [''gas'', ''natural'', ''ng'', ''fuel'']),
      (''electric'', [''electric'', ''elec'', ''power'', ''hv'', ''lv'', ''mv'']),
      (''telecom'', [''telecom'', ''telephone'', ''tel'', ''comm'', ''cable'']),
      (''fiber'', [''fiber'', ''fibre'', ''fo'', ''optical''])]"

definition upper_char :: "char \<Rightarrow> char" where
  "upper_char c =
     (let n = (of_char c :: nat) in if 97 \<le> n \<and> n \<le> 122 then char_of (n - 32) else c)"

definition upper :: "string \<Rightarrow> string" where
  "upper s = map upper_char s"

text \<open>\<^verbatim>\<open>any(kw.upper() in layer_name for kw in keywords)\<close>; Python's \<^verbatim>\<open>in\<close> on strings
  is the contiguous-substring test \<^const>\<open>sublist\<close>.\<close>

definition keyword_match :: "string list \<Rightarrow> string \<Rightarrow> bool" where
  "keyword_match keywords name_upper =
     list_ex (\<lambda>kw. sublist (upper kw) name_upper) keywords"

text \<open>The inner \<^verbatim>\<open>for asset_type, keywords in ....items()\<close> loop with its \<^verbatim>\<open>break\<close>:
  the first table entry with a matching keyword, if any.\<close>

fun first_match :: "(string \<times> string list) list \<Rightarrow> string \<Rightarrow> string option" where
  "first_match [] nm = None"
| "first_match ((asset_type, keywords) # rest) nm =
     (if keyword_match keywords nm then Some asset_type else first_match rest nm)"

text \<open>The outer loop over the layers, building the dictionary \<^verbatim>\<open>layer_types\<close>.\<close>

fun build_layer_types ::
  "dxf_layer_entry list \<Rightarrow> (string \<rightharpoonup> string) \<Rightarrow> (string \<rightharpoonup> string)" where
  "build_layer_types [] layer_types = layer_types"
| "build_layer_types (l # ls) layer_types =
     build_layer_types ls
       (case first_match ASSET_TYPE_KEYWORDS (upper (ly_name l)) of
          Some asset_type \<Rightarrow> layer_types(ly_name l \<mapsto> asset_type)
        | None \<Rightarrow> layer_types)"

text \<open>\<^verbatim>\<open>_classify_entities\<close> mutates the entities in place; the model returns them.\<close>

definition classify_entities ::
  "ExtractedEntity list \<Rightarrow> dxf_layer_entry list \<Rightarrow> ExtractedEntity list" where
  "classify_entities ents lys =
     (let layer_types = build_layer_types lys Map.empty in
      map (\<lambda>e. case layer_types (layer e) of
                  Some t \<Rightarrow> e\<lparr>suggested_type := Some t\<rparr>
                | None \<Rightarrow> e) ents)"

text \<open>\<^verbatim>\<open>_extract_single_entity\<close>. \<^verbatim>\<open>Vec3\<close> always has a \<^verbatim>\<open>z\<close>, so the
  \<^verbatim>\<open>hasattr\<close> tests are true.\<close>

definition entity_points ::
  "dxf_entity \<Rightarrow> (string \<times> vec3 list \<times> (string \<times> prop_value) list) option" where
  "entity_points ent =
     (case dxf_geom ent of
        Line start_pt end_pt \<Rightarrow> Some (dxftype ent, [start_pt, end_pt], [])
      | LWPolyline pts is_closed \<Rightarrow>
          Some (dxftype ent, map (\<lambda>(x, y, s, e, b). (x, y, 0)) pts,
                [(''closed'', PBool is_closed)])
      | Polyline vs is_closed \<Rightarrow> Some (dxftype ent, vs, [(''closed'', PBool is_closed)])
      | Circle center r \<Rightarrow> Some (''CIRCLE'', [center], [(''radius'', PNum r)])
      | Arc center r a0 a1 \<Rightarrow>
          Some (''ARC'', [center],
                [(''radius'', PNum r), (''start_angle'', PNum a0), (''end_angle'', PNum a1)])
      | Insert nm rot \<Rightarrow> None
      | Unsupported \<Rightarrow> None
      | Malformed \<Rightarrow> None)"

definition extract_single_entity :: "dxf_entity \<Rightarrow> ExtractedEntity option" where
  "extract_single_entity ent =
     (case entity_points ent of
        None \<Rightarrow> None
      | Some (etype, pts, props) \<Rightarrow>
          if pts = [] then None
          else
            let z_values = filter (\<lambda>z. z \<noteq> 0) (map (\<lambda>p. snd (snd p)) pts) in
            Some \<lparr> handle = dxf_handle ent, entity_type = etype, layer = dxf_layer ent,
                   points = pts, properties = props, suggested_type = None,
                   has_depth = (length z_values > 0), depth_values = z_values \<rparr>)"

definition extract_entities :: "dxf_document \<Rightarrow> ExtractedEntity list" where
  "extract_entities doc = List.map_filter extract_single_entity (doc_modelspace doc)"

definition extract_layers :: "dxf_document \<Rightarrow> dxf_layer_entry list" where
  "extract_layers doc = doc_layers doc"

definition get_units :: "dxf_document \<Rightarrow> string option" where
  "get_units doc =
     (let c = doc_insunits doc in
      Some (if c = 0 then ''unitless'' else if c = 1 then ''inches'' else if c = 2 then ''feet''
            else if c = 3 then ''miles'' else if c = 4 then ''millimeters''
            else if c = 5 then ''centimeters'' else if c = 6 then ''meters''
            else if c = 7 then ''kilometers'' else ''unknown''))"

definition calculate_bounds :: "ParseResult \<Rightarrow> ParseResult" where
  "calculate_bounds r =
     (let all_x = concat (map (\<lambda>e. map fst (points e)) (entities r));
          all_y = concat (map (\<lambda>e. map (\<lambda>p. fst (snd p)) (points e)) (entities r))
      in if all_x \<noteq> [] \<and> all_y \<noteq> []
         then r\<lparr> min_x := Some (Min (set all_x)), max_x := Some (Max (set all_x)),
                 min_y := Some (Min (set all_y)), max_y := Some (Max (set all_y)) \<rparr>
         else r)"

text \<open>\<^verbatim>\<open>_detect_crs\<close>: the geodata object first, then three header variables in
  turn.\<close>

definition detect_crs :: "dxf_document \<Rightarrow> bool \<times> string option" where
  "detect_crs doc =
     (case doc_geodata doc of
        Some definition_ \<Rightarrow> (True, Some definition_)
      | None \<Rightarrow>
          (case find (\<lambda>var_name. doc_header doc var_name \<noteq> None)
                  [''$PROJECTNAME'', ''$PROJCRS'', ''$COORDINATE_SYSTEM''] of
             Some var_name \<Rightarrow> (True, doc_header doc var_name)
           | None \<Rightarrow> (False, None)))"

text \<open>\<^verbatim>\<open>_detect_rotation\<close>: the UCS angle if its magnitude exceeds 0.1 degrees, else the
  rotation of the first block insertion whose name contains a north-arrow token.\<close>

definition north_arrow_names :: "string list" where
  "north_arrow_names = [''NORTH'', ''NORTHARROW'', ''N_ARROW'', ''NORTH_ARROW'']"

fun north_arrow_rotation :: "dxf_entity list \<Rightarrow> bool \<times> real" where
  "north_arrow_rotation [] = (False, 0)"
| "north_arrow_rotation (entity # msp) =
     (case dxf_geom entity of
        Insert block_name rotation \<Rightarrow>
          if list_ex (\<lambda>na. sublist na (upper block_name)) north_arrow_names
          then (True, rotation)
          else north_arrow_rotation msp
      | _ \<Rightarrow> north_arrow_rotation msp)"

definition detect_rotation :: "dxf_document \<Rightarrow> bool \<times> real" where
  "detect_rotation doc =
     (case doc_ucs_rotation doc of
        Some rotation \<Rightarrow>
          if \<bar>rotation\<bar> > 0.1 then (True, rotation)
          else north_arrow_rotation (doc_modelspace doc)
      | None \<Rightarrow> north_arrow_rotation (doc_modelspace doc))"

text \<open>\<^verbatim>\<open>_check_depth\<close>: the loop returns at the first entity with a meaningful z.\<close>

definition check_depth :: "ExtractedEntity list \<Rightarrow> bool" where
  "check_depth ents =
     list_ex (\<lambda>e. has_depth e \<and> depth_values e \<noteq> [] \<and>
                  list_ex (\<lambda>z. \<bar>z\<bar> > 0.001) (depth_values e)) ents"

definition determine_missing_fields :: "ParseResult \<Rightarrow> string list" where
  "determine_missing_fields r =
     (let has_labels = list_ex (\<lambda>e. suggested_type e \<noteq> None) (entities r) in
      (if \<not> result_has_depth r then [''depth''] else []) @
      (if \<not> has_crs r then [''crs''] else []) @
      (if \<not> has_rotation r then [''rotation''] else []) @
      (if \<not> has_labels then [''labels''] else []))"

text \<open>
  What \<^verbatim>\<open>parse\<close> can meet before the document is in hand: the file is absent, the DWG
  conversion yields nothing, \<^verbatim>\<open>ezdxf.readfile\<close> raises a DXF error, or something else
  raises.
\<close>

datatype read_outcome =
    FileNotFound
  | ConversionFailed
  | DXFError string
  | OtherError string
  | Document dxf_document

text \<open>\<^verbatim>\<open>parse\<close>, statement by statement, in the order of the source.\<close>

definition parse_document :: "string \<Rightarrow> dxf_document \<Rightarrow> ParseResult" where
  "parse_document fname doc =
     (let r0 = new_ParseResult fname;
          r1 = r0\<lparr> dxf_version := Some (doc_dxfversion doc), units := get_units doc \<rparr>;
          r2 = r1\<lparr> layers := extract_layers doc \<rparr>;
          r3 = r2\<lparr> entities := extract_entities doc \<rparr>;
          r4 = calculate_bounds r3;
          r5 = r4\<lparr> has_crs := fst (detect_crs doc), detected_crs := snd (detect_crs doc) \<rparr>;
          r6 = r5\<lparr> result_has_depth := check_depth (entities r5) \<rparr>;
          r7 = r6\<lparr> has_rotation := fst (detect_rotation doc),
                   rotation_degrees := snd (detect_rotation doc) \<rparr>;
          r8 = r7\<lparr> missing_fields := determine_missing_fields r7 \<rparr>;
          r9 = r8\<lparr> entities := classify_entities (entities r8) (layers r8) \<rparr>
      in r9\<lparr> success := True \<rparr>)"

text \<open>\<open>name\<close> is \<^verbatim>\<open>Path(file_path).name\<close>.\<close>

definition parse :: "string \<Rightarrow> string \<Rightarrow> read_outcome \<Rightarrow> ParseResult" where
  "parse file_path name outcome =
     (case outcome of
        FileNotFound \<Rightarrow> (new_ParseResult name)\<lparr> errors := [''File not found: '' @ file_path] \<rparr>
      | ConversionFailed \<Rightarrow>
          (new_ParseResult name)\<lparr> errors := [''Failed to convert DWG to DXF''] \<rparr>
      | DXFError msg \<Rightarrow>
          (new_ParseResult name)\<lparr> errors := [''DXF parsing error: '' @ msg] \<rparr>
      | OtherError msg \<Rightarrow>
          (new_ParseResult name)\<lparr> errors := [''Unexpected error: '' @ msg] \<rparr>
      | Document doc \<Rightarrow> parse_document name doc)"

subsection \<open>Assets and export options\<close>

datatype AssetType = SEWER | STORM | POTABLE | GAS | ELECTRIC | TELECOM | FIBER | UNKNOWN

fun AssetType_value :: "AssetType \<Rightarrow> string" where
  "AssetType_value SEWER = ''sewer''"
| "AssetType_value STORM = ''storm''"
| "AssetType_value POTABLE = ''potable''"
| "AssetType_value GAS = ''gas''"
| "AssetType_value ELECTRIC = ''electric''"
| "AssetType_value TELECOM = ''telecom''"
| "AssetType_value FIBER = ''fiber''"
| "AssetType_value UNKNOWN = ''unknown''"

text \<open>\<^verbatim>\<open>ASSET_TYPE_COLORS.get(asset.asset_type, "#808080")\<close>; a null type is no key
  of the dictionary.\<close>

fun ASSET_TYPE_COLORS_get :: "AssetType option \<Rightarrow> string" where
  "ASSET_TYPE_COLORS_get (Some SEWER) = ''#8B4513''"
| "ASSET_TYPE_COLORS_get (Some STORM) = ''#4169E1''"
| "ASSET_TYPE_COLORS_get (Some POTABLE) = ''#00CED1''"
| "ASSET_TYPE_COLORS_get (Some GAS) = ''#FFD700''"
| "ASSET_TYPE_COLORS_get (Some ELECTRIC) = ''#FF4500''"
| "ASSET_TYPE_COLORS_get (Some TELECOM) = ''#9370DB''"
| "ASSET_TYPE_COLORS_get (Some FIBER) = ''#32CD32''"
| "ASSET_TYPE_COLORS_get (Some UNKNOWN) = ''#808080''"
| "ASSET_TYPE_COLORS_get None = ''#808080''"

text \<open>
  The columns of \<^verbatim>\<open>Asset\<close> that the exporters read; a nullable column is an option.
  A coordinate is a Python list of numbers. \<open>coordinates\<close> is \<open>None\<close> when the object has
  no such attribute (the mapped class declares none) or it is null; \<open>original_points\<close> is
  \<^verbatim>\<open>original_properties['points']\<close>, \<open>None\<close> when the property bag is empty or has
  no such key.
\<close>

record Asset =
  asset_id :: string
  asset_type :: "AssetType option"
  label :: "string option"
  layer_name :: "string option"
  depth_start :: "real option"
  depth_end :: "real option"
  depth_unit :: "string option"
  diameter :: "real option"
  diameter_unit :: "string option"
  material :: "string option"
  color :: "string option"
  coordinates :: "real list list option"
  original_points :: "real list list option"

record ExportOptions =
  source_crs :: string
  target_crs :: string
  include_properties :: bool
  include_depth :: bool
  default_depth :: real
  default_diameter :: real
  precision :: int

definition default_ExportOptions :: ExportOptions where
  "default_ExportOptions =
     \<lparr> source_crs = ''EPSG:4326'', target_crs = ''EPSG:4326'', include_properties = True,
       include_depth = True, default_depth = 1.5, default_diameter = 0.15, precision = 8 \<rparr>"

text \<open>Python's \<^verbatim>\<open>x or d\<close>: the left operand unless it is falsy. \<^verbatim>\<open>None\<close>, the number
  zero and the empty string are falsy.\<close>

definition or_num :: "real option \<Rightarrow> real \<Rightarrow> real" where
  "or_num x d = (case x of None \<Rightarrow> d | Some v \<Rightarrow> if v = 0 then d else v)"

definition or_str :: "string option \<Rightarrow> string \<Rightarrow> string" where
  "or_str x d = (case x of None \<Rightarrow> d | Some s \<Rightarrow> if s = [] then d else s)"

text \<open>\<^verbatim>\<open>_extract_coordinates\<close>, the same in every exporter.\<close>

definition extract_coordinates :: "Asset \<Rightarrow> real list list" where
  "extract_coordinates a =
     (case coordinates a of
        Some cs \<Rightarrow> if cs \<noteq> [] then cs
                   else (case original_points a of Some ps \<Rightarrow> ps | None \<Rightarrow> [])
      | None \<Rightarrow> (case original_points a of Some ps \<Rightarrow> ps | None \<Rightarrow> []))"

subsection \<open>GeoJSONExporter\<close>

text \<open>
  The pyproj library: from two CRS strings, a transformer on (x, y), or \<open>None\<close> when
  \<^verbatim>\<open>CRS.from_string\<close> or \<^verbatim>\<open>Transformer.from_crs\<close> raises. The constructor of the
  exporter does not catch that error.
\<close>

type_synonym transformer = "real \<Rightarrow> real \<Rightarrow> real \<times> real"



definition transform_coord :: "transformer option \<Rightarrow> real list \<Rightarrow> real list" where
  "transform_coord tr coord =
     (case tr of
        Some t \<Rightarrow>
          if length coord \<ge> 2 then
            (case t (coord ! 0) (coord ! 1) of
               (x, y) \<Rightarrow> [x, y, if length coord > 2 then coord ! 2 else 0])
          else coord
      | None \<Rightarrow> coord)"

text \<open>
  Python's \<^verbatim>\<open>round(x, n)\<close> rounds to \<open>n\<close> decimal places, a tie going to the even digit.
  On the reals this is the decimal value that the float result stands for.
\<close>

definition round_half_even :: "real \<Rightarrow> int" where
  "round_half_even y =
     (let f = \<lfloor>y\<rfloor>; d = y - of_int f in
      if d < 1 / 2 then f else if d > 1 / 2 then f + 1 else if even f then f else f + 1)"

definition py_round :: "int \<Rightarrow> real \<Rightarrow> real" where
  "py_round n x =
     (if n \<ge> 0 then of_int (round_half_even (x * 10 ^ nat n)) / 10 ^ nat n
      else of_int (round_half_even (x / 10 ^ nat (- n))) * 10 ^ nat (- n))"

text \<open>One element of the rounding comprehension; \<^verbatim>\<open>c[0]\<close> and \<^verbatim>\<open>c[1]\<close> raise
  IndexError on a shorter list (\<open>None\<close>).\<close>

definition round_coord :: "int \<Rightarrow> real list \<Rightarrow> real list option" where
  "round_coord p c =
     (if length c < 2 then None
      else Some [py_round p (c ! 0), py_round p (c ! 1),
                 if length c > 2 then py_round p (c ! 2) else 0])"

datatype geometry = Point "real list" | LineString "real list list"

datatype json_value = JString string | JNumber real

record Feature =
  f_geometry :: geometry
  f_properties :: "(string \<times> json_value) list"

text \<open>\<^verbatim>\<open>_asset_to_feature\<close>; an exception inside is caught and gives \<open>None\<close>.\<close>

definition asset_to_feature ::
  "ExportOptions \<Rightarrow> transformer option \<Rightarrow> Asset \<Rightarrow> Feature option" where
  "asset_to_feature opts tr a =
     (let coords = extract_coordinates a in
      if coords = [] then None
      else
        let coords1 = (if tr \<noteq> None then map (transform_coord tr) coords else coords) in
        case those (map (round_coord (precision opts)) coords1) of
          None \<Rightarrow> None
        | Some coords2 \<Rightarrow>
            Some \<lparr> f_geometry =
                     (if length coords2 = 1 then Point (coords2 ! 0) else LineString coords2),
                   f_properties =
                     [(''id'', JString (asset_id a)),
                      (''type'', JString (case asset_type a of Some t \<Rightarrow> AssetType_value t
                                          | None \<Rightarrow> ''unknown'')),
                      (''label'', JString (or_str (label a) '''')),
                      (''layer'', JString (or_str (layer_name a) '''')),
                      (''color'', JString (or_str (color a)
                                             (ASSET_TYPE_COLORS_get (asset_type a))))]
                     @ (if include_depth opts then
                          [(''depth_start'', JNumber (or_num (depth_start a) (default_depth opts))),
                           (''depth_end'', JNumber (or_num (depth_end a) (default_depth opts))),
                           (''depth_unit'', JString (or_str (depth_unit a) ''meters''))]
                        else [])
                     @ (if include_properties opts then
                          [(''diameter'', JNumber (or_num (diameter a) (default_diameter opts))),
                           (''diameter_unit'', JString (or_str (diameter_unit a) ''meters'')),
                           (''material'', JString (or_str (material a) ''''))]
                        else []) \<rparr>)"

text \<open>The coordinates that a feature carries, as a list.\<close>

fun geometry_coordinates :: "geometry \<Rightarrow> real list list" where
  "geometry_coordinates (Point c) = [c]"
| "geometry_coordinates (LineString cs) = cs"





subsection \<open>CSVExporter\<close>

datatype cell = CStr string | CNum real

text \<open>One data row of \<^verbatim>\<open>CSVExporter.export\<close>; \<open>None\<close> for an asset that the loop
  skips with \<^verbatim>\<open>continue\<close>.\<close>

definition csv_row :: "Asset \<Rightarrow> cell list option" where
  "csv_row a =
     (let coords = extract_coordinates a in
      if coords = [] then None
      else
        let start = hd coords;
            end_pt = (if length coords > 1 then last coords else start)
        in Some
          [CStr (asset_id a),
           CStr (case asset_type a of Some t \<Rightarrow> AssetType_value t | None \<Rightarrow> ''unknown''),
           CStr (or_str (label a) ''''),
           CStr (or_str (layer_name a) ''''),
           CNum (if length start > 1 then start ! 1 else 0),
           CNum (if length start > 0 then start ! 0 else 0),
           CNum (if length start > 2 then start ! 2 else or_num (depth_start a) 0),
           CNum (if length end_pt > 1 then end_pt ! 1 else 0),
           CNum (if length end_pt > 0 then end_pt ! 0 else 0),
           CNum (if length end_pt > 2 then end_pt ! 2 else or_num (depth_end a) 0),
           (case diameter a of
              None \<Rightarrow> CStr ''''
            | Some d \<Rightarrow> if d = 0 then CStr '''' else CNum d),
           CStr (or_str (material a) ''''),
           CStr (or_str (color a) '''')])"

definition csv_header :: "string list" where
  "csv_header =
     [''id'', ''type'', ''label'', ''layer'', ''start_lat'', ''start_lon'', ''start_depth'',
      ''end_lat'', ''end_lon'', ''end_depth'', ''diameter'', ''material'', ''color'']"

definition CSV_export :: "bool \<Rightarrow> Asset list \<Rightarrow> bool \<times> (string list \<times> cell list list) option" where
  "CSV_export write_ok assets =
     (if write_ok then (True, Some (csv_header, List.map_filter csv_row assets))
      else (False, None))"

subsection \<open>Solid generation\<close>

text \<open>
  A one-dimensional numpy array is the list of its entries. A binary operation on two
  arrays works entry by entry when the lengths agree, broadcasts an array of length one,
  and raises ValueError (\<open>None\<close>) otherwise.
\<close>

definition np_binop ::
  "(real \<Rightarrow> real \<Rightarrow> real) \<Rightarrow> real list \<Rightarrow> real list \<Rightarrow> real list option" where
  "np_binop f a b =
     (if length a = length b then Some (map2 f a b)
      else if length a = 1 then Some (map (f (hd a)) b)
      else if length b = 1 then Some (map (\<lambda>x. f x (hd b)) a)
      else None)"

text \<open>\<^verbatim>\<open>np.linalg.norm\<close> of a vector.\<close>

definition np_norm :: "real list \<Rightarrow> real" where
  "np_norm v = sqrt (sum_list (map (\<lambda>x. x * x) v))"

text \<open>
  \<^verbatim>\<open>np.cross(z_axis, d)\<close> for \<^verbatim>\<open>z_axis = [0, 0, 1]\<close>. numpy accepts a second
  vector of two or three entries and raises ValueError otherwise; arrays of two entries
  never reach this point, since a z is appended to them first.
\<close>

definition np_cross_z :: "real list \<Rightarrow> real list option" where
  "np_cross_z d =
     (if length d = 3 then Some [0 * (d ! 2) - 1 * (d ! 1), 1 * (d ! 0) - 0 * (d ! 2),
                                 0 * (d ! 1) - 0 * (d ! 0)]
      else None)"

definition clip :: "real \<Rightarrow> real \<Rightarrow> real \<Rightarrow> real" where
  "clip x lo hi = (if x < lo then lo else if x > hi then hi else x)"

text \<open>
  The mesh that \<^verbatim>\<open>trimesh.creation.cylinder\<close> returns, with what is done to it
  afterwards: the rotation (angle and unit axis) if one is applied, the translation, and
  the vertex colour set by the caller. A concatenation of meshes is the list of its
  cylinders.
\<close>

record Cylinder =
  cyl_radius :: real
  cyl_height :: real
  cyl_sections :: nat
  cyl_rotation :: "(real \<times> real list) option"
  cyl_translation :: "real list"
  cyl_vertex_colors :: "int list"

datatype np_error = ValueError

text \<open>
  \<^verbatim>\<open>_create_cylinder\<close>: \<open>Inl\<close> when numpy raises, \<open>Inr None\<close> for a segment shorter
  than 0.001, otherwise the cylinder. \<open>sections\<close> is 8 in \<^verbatim>\<open>GLTFExporter\<close> and 12 in
  \<^verbatim>\<open>FBXExporter\<close>; the two methods are otherwise the same.
\<close>

definition create_cylinder ::
  "nat \<Rightarrow> real list \<Rightarrow> real list \<Rightarrow> real \<Rightarrow> np_error + Cylinder option" where
  "create_cylinder sections start end_pt radius =
     (case np_binop (-) end_pt start of
        None \<Rightarrow> Inl ValueError
      | Some direction \<Rightarrow>
          let seg_length = np_norm direction in
          if seg_length < 0.001 then Inr None
          else
            let direction_normalized = map (\<lambda>x. x / seg_length) direction in
            case np_cross_z direction_normalized of
              None \<Rightarrow> Inl ValueError
            | Some rotation_axis \<Rightarrow>
                let rotation_axis_norm = np_norm rotation_axis;
                    rotation =
                      (if rotation_axis_norm > 0.001 then
                         Some (arccos (clip (direction_normalized ! 2) (- 1) 1),
                               map (\<lambda>x. x / rotation_axis_norm) rotation_axis)
                       else None)
                in case np_binop (+) start end_pt of
                     None \<Rightarrow> Inl ValueError
                   | Some s \<Rightarrow>
                       Inr (Some \<lparr> cyl_radius = radius, cyl_height = seg_length,
                                   cyl_sections = sections, cyl_rotation = rotation,
                                   cyl_translation = map (\<lambda>x. x / 2) s,
                                   cyl_vertex_colors = [] \<rparr>))"

text \<open>
  \<^verbatim>\<open>_hex_to_rgba\<close>. \<open>int16\<close> is Python's \<^verbatim>\<open>int(s, 16)\<close>, \<open>None\<close> when it raises
  ValueError.
\<close>

definition hex_to_rgba :: "(string \<Rightarrow> int option) \<Rightarrow> string \<Rightarrow> int list option" where
  "hex_to_rgba int16 hex_color =
     (let h = dropWhile (\<lambda>c. c = CHR ''#'') hex_color in
      case int16 (take 2 h) of
        None \<Rightarrow> None
      | Some r \<Rightarrow>
          (case int16 (take 2 (drop 2 h)) of
             None \<Rightarrow> None
           | Some g \<Rightarrow>
               (case int16 (take 2 (drop 4 h)) of
                  None \<Rightarrow> None
                | Some b \<Rightarrow> Some [r, g, b, 255])))"

text \<open>\<^verbatim>\<open>if len(start) == 2: start = np.append(start, -(depth or default_depth))\<close>.\<close>

definition append_depth :: "real option \<Rightarrow> ExportOptions \<Rightarrow> real list \<Rightarrow> real list" where
  "append_depth depth opts p =
     (if length p = 2 then p @ [- (or_num depth (default_depth opts))] else p)"

text \<open>
  The loop of \<^verbatim>\<open>_asset_to_mesh\<close> over consecutive points. \<open>None\<close> when
  \<^verbatim>\<open>_create_cylinder\<close> raises in some iteration: the exception leaves the loop and the
  asset gives no mesh.
\<close>

fun mesh_segments ::
  "nat \<Rightarrow> ExportOptions \<Rightarrow> Asset \<Rightarrow> real \<Rightarrow> int list \<Rightarrow> real list list
     \<Rightarrow> Cylinder list option" where
  "mesh_segments sections opts a radius col (p # q # rest) =
     (case create_cylinder sections (append_depth (depth_start a) opts p)
             (append_depth (depth_end a) opts q) radius of
        Inl err \<Rightarrow> None
      | Inr None \<Rightarrow> mesh_segments sections opts a radius col (q # rest)
      | Inr (Some segment) \<Rightarrow>
          (case mesh_segments sections opts a radius col (q # rest) of
             None \<Rightarrow> None
           | Some segments \<Rightarrow> Some (segment\<lparr>cyl_vertex_colors := col\<rparr> # segments)))"
| "mesh_segments sections opts a radius col ps = Some []"

text \<open>
  \<^verbatim>\<open>_asset_to_mesh\<close>; any exception inside is caught and gives \<open>None\<close>. The imports
  at its head succeed whenever an export reaches it, since \<^verbatim>\<open>export\<close> has made the
  same imports before.
\<close>

definition asset_to_mesh ::
  "nat \<Rightarrow> (string \<Rightarrow> int option) \<Rightarrow> ExportOptions \<Rightarrow> Asset \<Rightarrow> Cylinder list option" where
  "asset_to_mesh sections int16 opts a =
     (let coords = extract_coordinates a in
      if length coords < 2 then None
      else
        let radius = or_num (diameter a) (default_diameter opts) / 2 in
        case hex_to_rgba int16 (or_str (color a) (ASSET_TYPE_COLORS_get (asset_type a))) of
          None \<Rightarrow> None
        | Some col \<Rightarrow>
            (case mesh_segments sections opts a radius col coords of
               None \<Rightarrow> None
             | Some segments \<Rightarrow> if segments \<noteq> [] then Some segments else None))"

subsection \<open>GLTFExporter\<close>

text \<open>
  The environment of a mesh export: whether \<^verbatim>\<open>import trimesh\<close> succeeds, and whether
  concatenating and writing the file go through without an exception.
\<close>

record mesh_env =
  trimesh_installed :: bool
  mesh_write_ok :: bool

text \<open>\<^verbatim>\<open>GLTFExporter.export\<close>: the result and the mesh written, if any.\<close>

definition GLTF_export ::
  "mesh_env \<Rightarrow> (string \<Rightarrow> int option) \<Rightarrow> ExportOptions \<Rightarrow> Asset list
     \<Rightarrow> bool \<times> Cylinder list option" where
  "GLTF_export env int16 opts assets =
     (if \<not> trimesh_installed env then (False, None)
      else
        let meshes = List.map_filter (asset_to_mesh 8 int16 opts) assets in
        if meshes = [] then (False, None)
        else if mesh_write_ok env then (True, Some (concat meshes))
        else (False, None))"

subsection \<open>FBXExporter\<close>













subsection \<open>Concrete drawings used in the evaluations below\<close>

definition plain_layer :: "string \<Rightarrow> dxf_layer_entry" where
  "plain_layer nm =
     \<lparr> ly_name = nm, ly_color = 7, ly_is_on = True, ly_is_frozen = False,
       ly_linetype = ''Continuous'' \<rparr>"

definition line_entity :: "string \<Rightarrow> string \<Rightarrow> vec3 \<Rightarrow> vec3 \<Rightarrow> dxf_entity" where
  "line_entity h lyr p q =
     \<lparr> dxf_handle = h, dxf_layer = lyr, dxftype = ''LINE'', dxf_geom = Line p q \<rparr>"

definition one_line_drawing :: "string \<Rightarrow> vec3 \<Rightarrow> vec3 \<Rightarrow> dxf_document" where
  "one_line_drawing lyr p q =
     \<lparr> doc_dxfversion = ''AC1032'', doc_insunits = 6, doc_layers = [plain_layer lyr],
       doc_modelspace = [line_entity ''1A'' lyr p q], doc_geodata = None,
       doc_header = Map.empty, doc_ucs_rotation = None \<rparr>"

subsection \<open>Concrete assets and a parser for hexadecimal bytes\<close>

text \<open>An asset with a sewer type, coordinates in the property bag, and every other
  column null.\<close>

definition plain_asset :: "real list list \<Rightarrow> Asset" where
  "plain_asset cs =
     \<lparr> asset_id = ''a1'', asset_type = Some SEWER, label = None, layer_name = None,
       depth_start = None, depth_end = None, depth_unit = None, diameter = None,
       diameter_unit = None, material = None, color = None, coordinates = None,
       original_points = Some cs \<rparr>"

text \<open>\<^verbatim>\<open>int(s, 16)\<close> on the strings the examples need: one or more hexadecimal digits
  and nothing else.\<close>

definition hex_digit :: "char \<Rightarrow> nat option" where
  "hex_digit c =
     (let n = (of_char c :: nat) in
      if 48 \<le> n \<and> n \<le> 57 then Some (n - 48)
      else if 65 \<le> n \<and> n \<le> 70 then Some (n - 55)
      else if 97 \<le> n \<and> n \<le> 102 then Some (n - 87)
      else None)"

fun hex_value :: "nat \<Rightarrow> string \<Rightarrow> nat option" where
  "hex_value acc [] = Some acc"
| "hex_value acc (c # cs) =
     (case hex_digit c of None \<Rightarrow> None | Some d \<Rightarrow> hex_value (16 * acc + d) cs)"

definition int16_digits :: "string \<Rightarrow> int option" where
  "int16_digits s = (if s = [] then None else map_option int (hex_value 0 s))"

text \<open>A vertical pipe from the surface to 10 units above it, with diameter 0.3.\<close>

definition vertical_pipe :: Asset where
  "vertical_pipe = (plain_asset [[0, 0, 0], [0, 0, 10]])\<lparr> diameter := Some 0.3 \<rparr>"



section \<open>Properties of the ingestion pipeline\<close>

subsection \<open>Classification by layer name\<close>



lemma classify_entities_length: "length (classify_entities ents lys) = length ents"
  by (simp add: classify_entities_def)

lemma classify_entities_points: "map points (classify_entities ents lys) = map points ents"
  by (simp add: classify_entities_def Let_def split: option.splits)







subsection \<open>What \<^const>\<open>parse_document\<close> computes\<close>

lemma parse_document_entities:
  "entities (parse_document fname doc) =
     classify_entities (extract_entities doc) (doc_layers doc)"
  by (simp add: parse_document_def Let_def calculate_bounds_def extract_layers_def)

lemma parse_document_has_depth:
  "result_has_depth (parse_document fname doc) = check_depth (extract_entities doc)"
  by (simp add: parse_document_def Let_def calculate_bounds_def)

lemma parse_document_missing_fields:
  "missing_fields (parse_document fname doc) =
     determine_missing_fields
       ((calculate_bounds ((new_ParseResult fname)
           \<lparr> dxf_version := Some (doc_dxfversion doc), units := get_units doc,
             layers := extract_layers doc, entities := extract_entities doc \<rparr>))
         \<lparr> has_crs := fst (detect_crs doc), detected_crs := snd (detect_crs doc),
           result_has_depth := check_depth (extract_entities doc),
           has_rotation := fst (detect_rotation doc),
           rotation_degrees := snd (detect_rotation doc) \<rparr>)"
  by (simp add: parse_document_def Let_def calculate_bounds_def)

lemma extract_single_entity_fields:
  assumes "extract_single_entity ent = Some e"
  shows "points e \<noteq> []"
    and "suggested_type e = None"
    and "depth_values e = filter (\<lambda>z. z \<noteq> 0) (map (\<lambda>p. snd (snd p)) (points e))"
    and "has_depth e = (depth_values e \<noteq> [])"
  using assms
  by (auto simp: extract_single_entity_def Let_def split: option.splits if_splits prod.splits)

lemma extract_entities_mem:
  "e \<in> set (extract_entities doc) \<Longrightarrow> \<exists>ent. extract_single_entity ent = Some e"
  by (auto simp: extract_entities_def List.map_filter_def)

lemma extracted_unlabelled:
  "e \<in> set (extract_entities doc) \<Longrightarrow> suggested_type e = None"
  using extract_entities_mem extract_single_entity_fields(2) by blast

lemma labels_always_missing:
  "''labels'' \<in> set (missing_fields (parse_document fname doc))"
proof -
  have "\<not> list_ex (\<lambda>e. suggested_type e \<noteq> None) (extract_entities doc)"
    by (simp add: list_ex_iff extracted_unlabelled)
  then show ?thesis
    by (simp add: parse_document_missing_fields determine_missing_fields_def
        calculate_bounds_def Let_def)
qed

lemma check_depth_extracted:
  assumes "\<And>e. e \<in> set ents \<Longrightarrow> \<exists>ent. extract_single_entity ent = Some e"
  shows "check_depth ents \<longleftrightarrow> (\<exists>e\<in>set ents. \<exists>p\<in>set (points e). \<bar>snd (snd p)\<bar> > 0.001)"
proof
  assume "check_depth ents"
  then obtain e z where e: "e \<in> set ents" and z: "z \<in> set (depth_values e)" "\<bar>z\<bar> > 0.001"
    by (auto simp: check_depth_def list_ex_iff)
  from assms[OF e] obtain ent where "extract_single_entity ent = Some e" ..
  then have "depth_values e = filter (\<lambda>z. z \<noteq> 0) (map (\<lambda>p. snd (snd p)) (points e))"
    by (rule extract_single_entity_fields)
  with z obtain p where "p \<in> set (points e)" "snd (snd p) = z" by auto
  with e z show "\<exists>e\<in>set ents. \<exists>p\<in>set (points e). \<bar>snd (snd p)\<bar> > 0.001" by blast
next
  assume "\<exists>e\<in>set ents. \<exists>p\<in>set (points e). \<bar>snd (snd p)\<bar> > 0.001"
  then obtain e p where e: "e \<in> set ents" and p: "p \<in> set (points e)" "\<bar>snd (snd p)\<bar> > 0.001"
    by blast
  from assms[OF e] obtain ent where ex: "extract_single_entity ent = Some e" ..
  have dv: "depth_values e = filter (\<lambda>z. z \<noteq> 0) (map (\<lambda>p. snd (snd p)) (points e))"
    and hd: "has_depth e = (depth_values e \<noteq> [])"
    using ex by (rule extract_single_entity_fields)+
  from p have "snd (snd p) \<noteq> 0" by auto
  with p dv have mem: "snd (snd p) \<in> set (depth_values e)" by auto
  then have "depth_values e \<noteq> []" by auto
  with hd mem p e show "check_depth ents"
    unfolding check_depth_def list_ex_iff by blast
qed

lemma points_of_classified:
  "(\<exists>e\<in>set (classify_entities ents lys). Q (points e)) \<longleftrightarrow> (\<exists>e\<in>set ents. Q (points e))"
proof -
  have a: "(\<exists>e\<in>set xs. Q (points e)) \<longleftrightarrow> (\<exists>ps\<in>set (map points xs). Q ps)"
    for xs :: "ExtractedEntity list"
    by auto
  show ?thesis
    using a[of "classify_entities ents lys"] a[of ents]
    by (simp only: classify_entities_points)
qed

text \<open>
  Claim C2, evaluated on the code. \<^verbatim>\<open>parse\<close> computes \<^verbatim>\<open>missing_fields\<close> before it
  calls \<^verbatim>\<open>_classify_entities\<close>, when no entity has a suggested type yet. For the drawing
  with one line on the layer \<^verbatim>\<open>SEWER_MAIN\<close> the entity ends the run classified sewer,
  and \<^verbatim>\<open>labels\<close> is listed as missing all the same.
\<close>

theorem labels_missing_despite_classification:
  "map suggested_type (entities (parse ''/data/plan.dxf'' ''plan.dxf''
       (Document (one_line_drawing ''SEWER_MAIN'' (0, 0, 0) (10, 0, 0)))))
     = [Some ''sewer'']
   \<and> missing_fields (parse ''/data/plan.dxf'' ''plan.dxf''
       (Document (one_line_drawing ''SEWER_MAIN'' (0, 0, 0) (10, 0, 0))))
     = [''depth'', ''crs'', ''rotation'', ''labels'']"
  by code_simp

subsection \<open>Depth detection\<close>

text \<open>The depth flag of a parsed document against the points of its entities.\<close>

lemma parse_document_depth:
  "(result_has_depth (parse_document fname doc) \<longleftrightarrow>
      (\<exists>e\<in>set (entities (parse_document fname doc)).
         \<exists>p\<in>set (points e). \<bar>snd (snd p)\<bar> > 0.001))
   \<and> ((\<forall>e\<in>set (entities (parse_document fname doc)).
         \<forall>p\<in>set (points e). snd (snd p) = 0 \<or> snd (snd p) = 0.001)
        \<longrightarrow> \<not> result_has_depth (parse_document fname doc))"
proof -
  have iff: "result_has_depth (parse_document fname doc) \<longleftrightarrow>
      (\<exists>e\<in>set (entities (parse_document fname doc)).
         \<exists>p\<in>set (points e). \<bar>snd (snd p)\<bar> > 0.001)"
    unfolding parse_document_entities parse_document_has_depth
    using check_depth_extracted[of "extract_entities doc"] extract_entities_mem[of _ doc]
      points_of_classified[of "extract_entities doc" "doc_layers doc"
         "\<lambda>ps. \<exists>p\<in>set ps. \<bar>snd (snd p)\<bar> > 0.001"]
    by blast
  have "\<not> result_has_depth (parse_document fname doc)"
    if "\<forall>e\<in>set (entities (parse_document fname doc)).
         \<forall>p\<in>set (points e). snd (snd p) = 0 \<or> snd (snd p) = 0.001"
  proof
    assume "result_has_depth (parse_document fname doc)"
    with iff obtain e p where "e \<in> set (entities (parse_document fname doc))"
      "p \<in> set (points e)" "\<bar>snd (snd p)\<bar> > 0.001" by blast
    with that show False by fastforce
  qed
  with iff show ?thesis by blast
qed

text \<open>
  Claim C4. For every parsed drawing, the drawing-level depth flag is true if and only if
  some point of some extracted entity has \<open>\<bar>z\<bar> > 0.001\<close>; a drawing in which every z is 0
  or exactly 0.001 has the flag false. (A run that fails before the document is read has
  no entities and the flag false.)
\<close>

theorem drawing_has_depth_iff:
  "(result_has_depth (parse file_path name outcome) \<longleftrightarrow>
      (\<exists>e\<in>set (entities (parse file_path name outcome)).
         \<exists>p\<in>set (points e). \<bar>snd (snd p)\<bar> > 0.001))
   \<and> ((\<forall>e\<in>set (entities (parse file_path name outcome)).
         \<forall>p\<in>set (points e). snd (snd p) = 0 \<or> snd (snd p) = 0.001)
        \<longrightarrow> \<not> result_has_depth (parse file_path name outcome))"
proof (cases outcome)
  case (Document doc)
  then have eq: "parse file_path name outcome = parse_document name doc"
    by (simp add: parse_def)
  show ?thesis
    unfolding eq by (rule parse_document_depth)
qed (simp_all add: parse_def new_ParseResult_def)

text \<open>The theorem at a line with one z of 0.002, and at a line with one z of exactly 0.001.\<close>

theorem drawing_has_depth_iff_witness:
  "result_has_depth (parse ''/data/plan.dxf'' ''plan.dxf''
      (Document (one_line_drawing ''PIPES'' (0, 0, 2 / 1000) (1, 0, 0))))
   \<and> \<not> result_has_depth (parse ''/data/plan.dxf'' ''plan.dxf''
      (Document (one_line_drawing ''PIPES'' (0, 0, 1 / 1000) (1, 0, 0))))"
proof -
  let ?deep = "parse ''/data/plan.dxf'' ''plan.dxf''
      (Document (one_line_drawing ''PIPES'' (0, 0, 2 / 1000) (1, 0, 0)))"
  let ?flat = "parse ''/data/plan.dxf'' ''plan.dxf''
      (Document (one_line_drawing ''PIPES'' (0, 0, 1 / 1000) (1, 0, 0)))"
  have "list_ex (\<lambda>e. list_ex (\<lambda>p. \<bar>snd (snd p)\<bar> > 0.001) (points e)) (entities ?deep)"
    by code_simp
  then have deep: "\<exists>e\<in>set (entities ?deep). \<exists>p\<in>set (points e). \<bar>snd (snd p)\<bar> > 0.001"
    by (simp add: list_ex_iff)
  have "list_all (\<lambda>e. list_all (\<lambda>p. snd (snd p) = 0 \<or> snd (snd p) = 0.001) (points e))
          (entities ?flat)"
    by code_simp
  then have flat: "\<forall>e\<in>set (entities ?flat). \<forall>p\<in>set (points e).
                     snd (snd p) = 0 \<or> snd (snd p) = 0.001"
    by (simp add: list_all_iff)
  from drawing_has_depth_iff[of "''/data/plan.dxf''" "''plan.dxf''"
      "Document (one_line_drawing ''PIPES'' (0, 0, 2 / 1000) (1, 0, 0))"] deep
  have a: "result_has_depth ?deep" by blast
  from drawing_has_depth_iff[of "''/data/plan.dxf''" "''plan.dxf''"
      "Document (one_line_drawing ''PIPES'' (0, 0, 1 / 1000) (1, 0, 0))"] flat
  have b: "\<not> result_has_depth ?flat" by blast
  from a b show ?thesis by blast
qed

text \<open>
  Claim C5, as the code has it. For every extracted entity, the per-entity depth flag is
  true if and only if some point of the entity has a z different from 0; no threshold is
  applied, so an entity whose points all have \<open>0 < \<bar>z\<bar> \<le> 0.001\<close> has the flag true.
\<close>

theorem entity_has_depth_nonzero:
  assumes "extract_single_entity ent = Some e"
  shows "(has_depth e \<longleftrightarrow> (\<exists>p\<in>set (points e). snd (snd p) \<noteq> 0))
       \<and> ((\<forall>p\<in>set (points e). 0 < \<bar>snd (snd p)\<bar> \<and> \<bar>snd (snd p)\<bar> \<le> 0.001) \<longrightarrow> has_depth e)"
proof -
  have dv: "depth_values e = filter (\<lambda>z. z \<noteq> 0) (map (\<lambda>p. snd (snd p)) (points e))"
    and hd: "has_depth e = (depth_values e \<noteq> [])" and ne: "points e \<noteq> []"
    using assms by (rule extract_single_entity_fields)+
  have iff: "has_depth e \<longleftrightarrow> (\<exists>p\<in>set (points e). snd (snd p) \<noteq> 0)"
    unfolding hd dv by (auto simp: filter_empty_conv)
  from ne obtain p where "p \<in> set (points e)" by (cases "points e") auto
  then have "has_depth e" if "\<forall>p\<in>set (points e). 0 < \<bar>snd (snd p)\<bar> \<and> \<bar>snd (snd p)\<bar> \<le> 0.001"
    using that iff by fastforce
  with iff show ?thesis by blast
qed

theorem entity_has_depth_nonzero_witness:
  "extract_single_entity (line_entity ''1A'' ''PIPES'' (0, 0, 5 / 10000) (1, 0, 5 / 10000)) =
     Some \<lparr> handle = ''1A'', entity_type = ''LINE'', layer = ''PIPES'',
            points = [(0, 0, 5 / 10000), (1, 0, 5 / 10000)], properties = [],
            suggested_type = None, has_depth = True,
            depth_values = [5 / 10000, 5 / 10000] \<rparr>"
proof -
  let ?e = "\<lparr> handle = ''1A'', entity_type = ''LINE'', layer = ''PIPES'',
            points = [(0, 0, 5 / 10000), (1, 0, 5 / 10000)], properties = [],
            suggested_type = None, has_depth = False,
            depth_values = [5 / 10000 :: real, 5 / 10000] \<rparr>"
  obtain e where ex:
    "extract_single_entity (line_entity ''1A'' ''PIPES'' (0, 0, 5 / 10000) (1, 0, 5 / 10000)) = Some e"
    and rest: "e\<lparr>has_depth := False\<rparr> = ?e"
    by (simp add: extract_single_entity_def entity_points_def line_entity_def)
  from rest have pts: "points e = [(0, 0, 5 / 10000), (1, 0, 5 / 10000)]"
    by (cases e) simp
  then have "\<forall>p\<in>set (points e). 0 < \<bar>snd (snd p)\<bar> \<and> \<bar>snd (snd p)\<bar> \<le> 0.001" by simp
  with entity_has_depth_nonzero[OF ex] have "has_depth e" by blast
  with rest have "e = ?e\<lparr>has_depth := True\<rparr>" by (cases e) simp
  with ex show ?thesis by simp
qed

text \<open>
  Claim C5 as stated fails: a line whose two points have z = 0.0005 is extracted with the
  depth flag true although no point has \<open>\<bar>z\<bar> > 0.001\<close>.
\<close>

theorem entity_has_depth_counterexample:
  "map_option has_depth
     (extract_single_entity (line_entity ''1A'' ''PIPES'' (0, 0, 5 / 10000) (1, 0, 5 / 10000)))
     = Some True
   \<and> map_option points
     (extract_single_entity (line_entity ''1A'' ''PIPES'' (0, 0, 5 / 10000) (1, 0, 5 / 10000)))
     = Some [(0, 0, 5 / 10000), (1, 0, 5 / 10000)]
   \<and> \<not> (0.001 < \<bar>5 / 10000 :: real\<bar>)"
  by (simp add: extract_single_entity_def entity_points_def line_entity_def)

section \<open>Properties of the vector and tabular adapters\<close>

lemma round_half_even_0: "round_half_even 0 = 0"
  by (simp add: round_half_even_def)

lemma py_round_0: "py_round n 0 = 0"
  by (simp add: py_round_def round_half_even_0)

lemma those_round_coord:
  "those (map (round_coord p) cs) = Some out \<Longrightarrow>
     list_all2 (\<lambda>c r. length c \<ge> 2 \<and>
        r = [py_round p (c ! 0), py_round p (c ! 1),
             if length c > 2 then py_round p (c ! 2) else 0]) cs out"
proof (induction cs arbitrary: out)
  case Nil
  then show ?case by simp
next
  case (Cons c cs)
  then show ?case
    by (auto simp: round_coord_def split: option.splits if_splits)
qed


text \<open>The coordinates of a feature are the rounded coordinates of the asset, after the
  transform if there is one.\<close>

lemma asset_to_feature_coordinates:
  assumes "asset_to_feature opts tr a = Some f"
  shows "those (map (round_coord (precision opts))
                  (if tr \<noteq> None then map (transform_coord tr) (extract_coordinates a)
                   else extract_coordinates a))
         = Some (geometry_coordinates (f_geometry f))"
proof -
  from assms obtain coords2 where
    t: "those (map (round_coord (precision opts))
                  (if tr \<noteq> None then map (transform_coord tr) (extract_coordinates a)
                   else extract_coordinates a)) = Some coords2"
    and g: "f_geometry f = (if length coords2 = 1 then Point (coords2 ! 0) else LineString coords2)"
    by (auto simp: asset_to_feature_def Let_def split: if_splits option.splits)
  have "geometry_coordinates (f_geometry f) = coords2"
  proof (cases "length coords2 = 1")
    case True
    then obtain c where "coords2 = [c]" by (cases coords2) auto
    with g show ?thesis by simp
  next
    case False
    with g show ?thesis by simp
  qed
  with t show ?thesis by simp
qed



text \<open>
  Claim C10. Every coordinate of every feature that the vector adapter emits has exactly
  three components, and there is one per coordinate of the asset; where the asset's
  coordinate has two components, the emitted one is the transformed and rounded x and y
  followed by 0.
\<close>

theorem feature_coordinates_3d:
  assumes "asset_to_feature opts tr a = Some f"
  shows "(\<forall>c\<in>set (geometry_coordinates (f_geometry f)). length c = 3)
       \<and> length (geometry_coordinates (f_geometry f)) = length (extract_coordinates a)
       \<and> (\<forall>i<length (extract_coordinates a). length (extract_coordinates a ! i) = 2 \<longrightarrow>
            geometry_coordinates (f_geometry f) ! i =
              (case tr of
                 None \<Rightarrow> [py_round (precision opts) (extract_coordinates a ! i ! 0),
                           py_round (precision opts) (extract_coordinates a ! i ! 1), 0]
               | Some t \<Rightarrow>
                   [py_round (precision opts)
                      (fst (t (extract_coordinates a ! i ! 0) (extract_coordinates a ! i ! 1))),
                    py_round (precision opts)
                      (snd (t (extract_coordinates a ! i ! 0) (extract_coordinates a ! i ! 1))),
                    0]))"
proof -
  let ?cs = "extract_coordinates a"
  let ?cs1 = "if tr \<noteq> None then map (transform_coord tr) ?cs else ?cs"
  let ?out = "geometry_coordinates (f_geometry f)"
  let ?p = "precision opts"
  have "those (map (round_coord ?p) ?cs1) = Some ?out"
    using assms by (rule asset_to_feature_coordinates)
  then have l2: "list_all2 (\<lambda>c r. length c \<ge> 2 \<and>
        r = [py_round ?p (c ! 0), py_round ?p (c ! 1),
             if length c > 2 then py_round ?p (c ! 2) else 0]) ?cs1 ?out"
    by (rule those_round_coord)
  have len1: "length ?cs1 = length ?cs" by simp
  from l2 have len: "length ?out = length ?cs"
    using len1 by (simp add: list_all2_lengthD)
  have three: "\<forall>c\<in>set ?out. length c = 3"
  proof
    fix c assume "c \<in> set ?out"
    then obtain i where i: "i < length ?out" "?out ! i = c" by (auto simp: in_set_conv_nth)
    with l2 have "c = [py_round ?p (?cs1 ! i ! 0), py_round ?p (?cs1 ! i ! 1),
             if length (?cs1 ! i) > 2 then py_round ?p (?cs1 ! i ! 2) else 0]"
      by (auto simp: list_all2_conv_all_nth)
    then show "length c = 3" by simp
  qed
  have two: "?out ! i =
              (case tr of
                 None \<Rightarrow> [py_round ?p (?cs ! i ! 0), py_round ?p (?cs ! i ! 1), 0]
               | Some t \<Rightarrow>
                   [py_round ?p (fst (t (?cs ! i ! 0) (?cs ! i ! 1))),
                    py_round ?p (snd (t (?cs ! i ! 0) (?cs ! i ! 1))), 0])"
    if i: "i < length ?cs" and c2: "length (?cs ! i) = 2" for i
  proof -
    from l2 i len1 have r: "?out ! i = [py_round ?p (?cs1 ! i ! 0), py_round ?p (?cs1 ! i ! 1),
             if length (?cs1 ! i) > 2 then py_round ?p (?cs1 ! i ! 2) else 0]"
      by (auto simp: list_all2_conv_all_nth)
    show ?thesis
    proof (cases tr)
      case None
      with r c2 show ?thesis by simp
    next
      case (Some t)
      with i have "?cs1 ! i = transform_coord (Some t) (?cs ! i)" by simp
      also have "\<dots> = [fst (t (?cs ! i ! 0) (?cs ! i ! 1)), snd (t (?cs ! i ! 0) (?cs ! i ! 1)), 0]"
        using c2 by (simp add: transform_coord_def split: prod.splits)
      finally show ?thesis using r Some by (simp add: py_round_0)
    qed
  qed
  from three len two show ?thesis by blast
qed

text \<open>The theorem with the transformer that returns x and y as they are.\<close>

theorem feature_coordinates_3d_witness:
  "geometry_coordinates (f_geometry (the (asset_to_feature default_ExportOptions (Some Pair)
        (plain_asset [[4, 5], [1, 2, 3]])))) ! 0 = [4, 5, 0]
   \<and> length (geometry_coordinates (f_geometry (the (asset_to_feature default_ExportOptions
        (Some Pair) (plain_asset [[4, 5], [1, 2, 3]]))))) = 2"
proof -
  let ?a = "plain_asset [[4, 5], [1, 2, 3]]"
  have "asset_to_feature default_ExportOptions (Some Pair) ?a \<noteq> None" by code_simp
  then obtain f where f: "asset_to_feature default_ExportOptions (Some Pair) ?a = Some f" by auto
  have ec: "extract_coordinates ?a = [[4, 5], [1, 2, 3]]"
    by (simp add: extract_coordinates_def plain_asset_def)
  have p: "precision default_ExportOptions = 8" by (simp add: default_ExportOptions_def)
  have r: "py_round 8 4 = 4" "py_round 8 5 = 5"
    by code_simp+
  from feature_coordinates_3d[OF f]
  have "length (geometry_coordinates (f_geometry f)) = 2
      \<and> geometry_coordinates (f_geometry f) ! 0 = [4, 5, 0]"
    unfolding ec p by (simp add: r)
  with f show ?thesis by simp
qed

text \<open>A zero on the left of \<^verbatim>\<open>or\<close> gives the right operand, as a missing value does.\<close>

lemma or_num_zero: "or_num (Some 0) d = d" "or_num None d = d"
  by (simp_all add: or_num_def)

text \<open>
  Claim C9, evaluated on the code. An asset with \<^verbatim>\<open>depth_start = 0.0\<close> and
  \<^verbatim>\<open>diameter = 0.0\<close> is exported with the default options. The \<^verbatim>\<open>or\<close> of the
  source takes the zero for a missing value: the vector adapter writes the default depth
  1.5 for \<^verbatim>\<open>depth_start\<close> (and the default diameter 0.15), and the tabular adapter
  writes the empty string for the diameter.
\<close>

theorem zero_attributes_replaced:
  "asset_to_feature default_ExportOptions None
     ((plain_asset [[1, 2, 3]])\<lparr> depth_start := Some 0, diameter := Some 0 \<rparr>)
   = Some \<lparr> f_geometry = Point [1, 2, 3],
            f_properties =
              [(''id'', JString ''a1''), (''type'', JString ''sewer''),
               (''label'', JString ''''), (''layer'', JString ''''),
               (''color'', JString ''#8B4513''),
               (''depth_start'', JNumber 1.5), (''depth_end'', JNumber 1.5),
               (''depth_unit'', JString ''meters''),
               (''diameter'', JNumber 0.15), (''diameter_unit'', JString ''meters''),
               (''material'', JString '''')] \<rparr>
   \<and> csv_row ((plain_asset [[1, 2, 3]])\<lparr> depth_start := Some 0, diameter := Some 0 \<rparr>)
   = Some [CStr ''a1'', CStr ''sewer'', CStr '''', CStr '''', CNum 2, CNum 1, CNum 3,
           CNum 2, CNum 1, CNum 3, CStr '''', CStr '''', CStr '''']"
  by code_simp

section \<open>Properties of solid generation and the mesh adapters\<close>

lemma sqrt_100: "sqrt 100 = 10"
  by (rule real_sqrt_unique) simp_all

lemma three_elems: "length d = 3 \<Longrightarrow> \<exists>x y z. d = [x, y, z]"
  by (cases d; cases "tl d"; cases "tl (tl d)") auto

text \<open>What \<^const>\<open>create_cylinder\<close> gives for two points of three components.\<close>

lemma create_cylinder_3d:
  assumes "length p = 3" "length q = 3"
  shows "create_cylinder n p q r =
     (let d = map2 (-) q p; len = np_norm d in
      if len < 0.001 then Inr None
      else Inr (Some \<lparr> cyl_radius = r, cyl_height = len, cyl_sections = n,
              cyl_rotation =
                (let ax = [- (d ! 1 / len), d ! 0 / len, 0] in
                 if np_norm ax > 0.001
                 then Some (arccos (clip (d ! 2 / len) (- 1) 1), map (\<lambda>x. x / np_norm ax) ax)
                 else None),
              cyl_translation = map (\<lambda>x. x / 2) (map2 (+) p q),
              cyl_vertex_colors = [] \<rparr>))"
proof -
  from assms obtain p0 p1 p2 q0 q1 q2 where pq: "p = [p0, p1, p2]" "q = [q0, q1, q2]"
    using three_elems by blast
  show ?thesis
    unfolding pq
    by (simp add: create_cylinder_def np_binop_def np_cross_z_def Let_def)
qed

lemma append_depth_length:
  "length p = 2 \<or> length p = 3 \<Longrightarrow> length (append_depth dep opts p) = 3"
  by (auto simp: append_depth_def)

text \<open>An asset of two points, at least 0.001 apart, gives one cylinder.\<close>

lemma single_segment_mesh:
  assumes coords: "extract_coordinates a = [p, q]"
    and col: "hex_to_rgba int16 (or_str (color a) (ASSET_TYPE_COLORS_get (asset_type a))) = Some col"
    and lp: "length p = 2 \<or> length p = 3" and lq: "length q = 2 \<or> length q = 3"
    and len: "np_norm (map2 (-) (append_depth (depth_end a) opts q)
                                  (append_depth (depth_start a) opts p)) \<ge> 0.001"
  shows "\<exists>c. asset_to_mesh n int16 opts a = Some [c]
           \<and> cyl_radius c = or_num (diameter a) (default_diameter opts) / 2
           \<and> cyl_height c = np_norm (map2 (-) (append_depth (depth_end a) opts q)
                                  (append_depth (depth_start a) opts p))
           \<and> cyl_sections c = n \<and> cyl_vertex_colors c = col
           \<and> (cyl_rotation c = None \<longleftrightarrow>
               np_norm (the (np_cross_z (map (\<lambda>x. x / cyl_height c)
                  (map2 (-) (append_depth (depth_end a) opts q)
                            (append_depth (depth_start a) opts p))))) \<le> 0.001)"
proof -
  let ?p = "append_depth (depth_start a) opts p"
  let ?q = "append_depth (depth_end a) opts q"
  let ?d = "map2 (-) ?q ?p"
  have l3: "length ?p = 3" "length ?q = 3"
    using lp lq by (simp_all add: append_depth_length)
  then obtain x y z where d: "?d = [x, y, z]"
    using three_elems[of ?d] by auto
  from len have nl: "\<not> np_norm ?d < 0.001" by simp
  have cc: "create_cylinder n ?p ?q r = Inr (Some \<lparr> cyl_radius = r, cyl_height = np_norm ?d,
              cyl_sections = n,
              cyl_rotation =
                (let ax = [- (?d ! 1 / np_norm ?d), ?d ! 0 / np_norm ?d, 0] in
                 if np_norm ax > 0.001
                 then Some (arccos (clip (?d ! 2 / np_norm ?d) (- 1) 1),
                            map (\<lambda>x. x / np_norm ax) ax)
                 else None),
              cyl_translation = map (\<lambda>x. x / 2) (map2 (+) ?p ?q),
              cyl_vertex_colors = [] \<rparr>)" for r
    using nl by (simp add: create_cylinder_3d[OF l3] Let_def)
  show ?thesis
    using coords col
    by (simp add: asset_to_mesh_def cc Let_def d np_cross_z_def)
qed


text \<open>Facts about the vertical pipe.\<close>

lemma vertical_pipe_coords: "extract_coordinates vertical_pipe = [[0, 0, 0], [0, 0, 10]]"
  by (simp add: vertical_pipe_def plain_asset_def extract_coordinates_def)

lemma vertical_pipe_colour:
  "hex_to_rgba int16_digits (or_str (color vertical_pipe) (ASSET_TYPE_COLORS_get (asset_type vertical_pipe)))
     = Some [139, 69, 19, 255]"
  by code_simp

lemma vertical_pipe_norm:
  "np_norm (map2 (-) (append_depth (depth_end vertical_pipe) opts [0, 0, 10])
                           (append_depth (depth_start vertical_pipe) opts [0, 0, 0])) = 10"
  by (simp add: append_depth_def np_norm_def sqrt_100)




lemma asset_to_mesh_nonempty: "asset_to_mesh n int16 opts a = Some m \<Longrightarrow> m \<noteq> []"
  by (auto simp: asset_to_mesh_def Let_def split: if_splits option.splits)

lemma map_filter_meshes_nonempty:
  "\<forall>m\<in>set (List.map_filter (asset_to_mesh n int16 opts) assets). m \<noteq> []"
  by (auto simp: List.map_filter_def asset_to_mesh_nonempty)

lemma concat_nonempty: "ms \<noteq> [] \<Longrightarrow> \<forall>m\<in>set ms. m \<noteq> [] \<Longrightarrow> concat ms \<noteq> []"
  by (cases ms) auto

lemma create_cylinder_degenerate:
  "np_binop (-) q p = Some d \<Longrightarrow> np_norm d < 0.001 \<Longrightarrow> create_cylinder n p q r = Inr None"
  by (simp add: create_cylinder_def)

lemma mesh_segments_degenerate:
  assumes "\<forall>i. Suc i < length coords \<longrightarrow>
             (\<exists>d. np_binop (-) (append_depth (depth_end a) opts (coords ! Suc i))
                               (append_depth (depth_start a) opts (coords ! i)) = Some d
                  \<and> np_norm d < 0.001)"
  shows "mesh_segments n opts a r col coords = Some []"
  using assms
proof (induction n opts a r col coords rule: mesh_segments.induct)
  case (1 sections opts a radius col p q rest)
  from "1.prems" have "\<exists>d. np_binop (-) (append_depth (depth_end a) opts ((p # q # rest) ! Suc 0))
                               (append_depth (depth_start a) opts ((p # q # rest) ! 0)) = Some d
                  \<and> np_norm d < 0.001"
    by (auto simp del: nth_Cons_Suc nth_Cons_0)
  then obtain d where "np_binop (-) (append_depth (depth_end a) opts q)
                               (append_depth (depth_start a) opts p) = Some d" "np_norm d < 0.001"
    by auto
  then have cc: "create_cylinder sections (append_depth (depth_start a) opts p)
             (append_depth (depth_end a) opts q) radius = Inr None"
    by (rule create_cylinder_degenerate)
  have "\<forall>i. Suc i < length (q # rest) \<longrightarrow>
             (\<exists>d. np_binop (-) (append_depth (depth_end a) opts ((q # rest) ! Suc i))
                               (append_depth (depth_start a) opts ((q # rest) ! i)) = Some d
                  \<and> np_norm d < 0.001)"
  proof (intro allI impI)
    fix i assume "Suc i < length (q # rest)"
    then have "Suc (Suc i) < length (p # q # rest)" by simp
    with "1.prems" have "\<exists>d. np_binop (-) (append_depth (depth_end a) opts ((p # q # rest) ! Suc (Suc i)))
                               (append_depth (depth_start a) opts ((p # q # rest) ! Suc i)) = Some d
                  \<and> np_norm d < 0.001" by blast
    then show "\<exists>d. np_binop (-) (append_depth (depth_end a) opts ((q # rest) ! Suc i))
                               (append_depth (depth_start a) opts ((q # rest) ! i)) = Some d
                  \<and> np_norm d < 0.001" by simp
  qed
  with "1.IH"(1)[OF cc] have "mesh_segments sections opts a radius col (q # rest) = Some []"
    by blast
  with cc show ?case by simp
qed simp_all

lemma asset_to_mesh_degenerate:
  assumes "\<forall>i. Suc i < length (extract_coordinates a) \<longrightarrow>
             (\<exists>d. np_binop (-) (append_depth (depth_end a) opts (extract_coordinates a ! Suc i))
                               (append_depth (depth_start a) opts (extract_coordinates a ! i)) = Some d
                  \<and> np_norm d < 0.001)"
  shows "asset_to_mesh n int16 opts a = None"
  using mesh_segments_degenerate[OF assms]
  by (simp add: asset_to_mesh_def Let_def split: option.splits)

lemma map_filter_all_None: "(\<forall>x\<in>set xs. f x = None) \<Longrightarrow> List.map_filter f xs = []"
  by (induction xs) (simp_all add: List.map_filter_simps)

text \<open>
  Claim C8, as the code has it. For every asset list, the direct mesh adapter reports
  success exactly when the mesh library is there, at least one asset gave a solid, and
  combining and writing the file raised nothing. With zero solids from the whole asset
  set it reports failure and writes no file; that includes the case where every
  consecutive point pair of every asset is degenerate (closer than 0.001), which is
  skipped without error. Success implies that a mesh of at least one solid was written.
\<close>

theorem gltf_export_failure:
  "(fst (GLTF_export env int16 opts assets) \<longleftrightarrow>
      trimesh_installed env \<and> mesh_write_ok env \<and>
      List.map_filter (asset_to_mesh 8 int16 opts) assets \<noteq> [])
   \<and> (List.map_filter (asset_to_mesh 8 int16 opts) assets = [] \<longrightarrow>
        GLTF_export env int16 opts assets = (False, None))
   \<and> (fst (GLTF_export env int16 opts assets) \<longrightarrow>
        (\<exists>cs. snd (GLTF_export env int16 opts assets) = Some cs \<and> cs \<noteq> []))
   \<and> ((\<forall>a\<in>set assets. \<forall>i. Suc i < length (extract_coordinates a) \<longrightarrow>
          (\<exists>d. np_binop (-) (append_depth (depth_end a) opts (extract_coordinates a ! Suc i))
                            (append_depth (depth_start a) opts (extract_coordinates a ! i)) = Some d
               \<and> np_norm d < 0.001))
        \<longrightarrow> GLTF_export env int16 opts assets = (False, None))"
proof (intro conjI impI)
  show "fst (GLTF_export env int16 opts assets) \<longleftrightarrow>
      trimesh_installed env \<and> mesh_write_ok env \<and>
      List.map_filter (asset_to_mesh 8 int16 opts) assets \<noteq> []"
    by (simp add: GLTF_export_def Let_def)
next
  assume "List.map_filter (asset_to_mesh 8 int16 opts) assets = []"
  then show "GLTF_export env int16 opts assets = (False, None)"
    by (simp add: GLTF_export_def Let_def)
next
  assume "fst (GLTF_export env int16 opts assets)"
  then have ne: "List.map_filter (asset_to_mesh 8 int16 opts) assets \<noteq> []"
    and s: "snd (GLTF_export env int16 opts assets)
             = Some (concat (List.map_filter (asset_to_mesh 8 int16 opts) assets))"
    by (auto simp: GLTF_export_def Let_def split: if_splits)
  from ne have "concat (List.map_filter (asset_to_mesh 8 int16 opts) assets) \<noteq> []"
    using map_filter_meshes_nonempty by (rule concat_nonempty)
  with s show "\<exists>cs. snd (GLTF_export env int16 opts assets) = Some cs \<and> cs \<noteq> []" by blast
next
  assume "\<forall>a\<in>set assets. \<forall>i. Suc i < length (extract_coordinates a) \<longrightarrow>
          (\<exists>d. np_binop (-) (append_depth (depth_end a) opts (extract_coordinates a ! Suc i))
                            (append_depth (depth_start a) opts (extract_coordinates a ! i)) = Some d
               \<and> np_norm d < 0.001)"
  then have "\<forall>a\<in>set assets. asset_to_mesh 8 int16 opts a = None"
    using asset_to_mesh_degenerate by blast
  then have "List.map_filter (asset_to_mesh 8 int16 opts) assets = []"
    by (rule map_filter_all_None)
  then show "GLTF_export env int16 opts assets = (False, None)"
    by (simp add: GLTF_export_def Let_def)
qed

lemma vertical_pipe_mesh:
  "\<exists>c. asset_to_mesh n int16_digits default_ExportOptions vertical_pipe = Some [c]"
proof -
  have l: "length [0, 0, 0 :: real] = 2 \<or> length [0, 0, 0 :: real] = 3"
    "length [0, 0, 10 :: real] = 2 \<or> length [0, 0, 10 :: real] = 3" by simp_all
  have "np_norm (map2 (-) (append_depth (depth_end vertical_pipe) default_ExportOptions [0, 0, 10])
                  (append_depth (depth_start vertical_pipe) default_ExportOptions [0, 0, 0]))
          \<ge> 0.001"
    by (simp add: vertical_pipe_norm)
  from single_segment_mesh[OF vertical_pipe_coords vertical_pipe_colour l this, of n]
  obtain c where "asset_to_mesh n int16_digits default_ExportOptions vertical_pipe = Some [c]"
    by (elim exE conjE)
  then show ?thesis by (rule exI)
qed

lemma vertical_pipe_map_filter:
  "length (List.map_filter (asset_to_mesh n int16_digits default_ExportOptions) [vertical_pipe]) = 1"
  using vertical_pipe_mesh[of n] by (auto simp: List.map_filter_simps)

text \<open>The theorem at an asset whose two points coincide (failure), and at the vertical
  pipe in an environment where everything works (success).\<close>

theorem gltf_export_failure_witness:
  "GLTF_export \<lparr> trimesh_installed = True, mesh_write_ok = True \<rparr> int16_digits
       default_ExportOptions [plain_asset [[0, 0, 0], [0, 0, 0]]] = (False, None)
   \<and> fst (GLTF_export \<lparr> trimesh_installed = True, mesh_write_ok = True \<rparr> int16_digits
       default_ExportOptions [vertical_pipe])"
proof -
  let ?env = "\<lparr> trimesh_installed = True, mesh_write_ok = True \<rparr>"
  let ?a = "plain_asset [[0, 0, 0], [0, 0, 0]]"
  have ec: "extract_coordinates ?a = [[0, 0, 0], [0, 0, 0]]"
    by (simp add: extract_coordinates_def plain_asset_def)
  have "\<exists>d. np_binop (-) (append_depth (depth_end ?a) default_ExportOptions (extract_coordinates ?a ! Suc i))
                            (append_depth (depth_start ?a) default_ExportOptions (extract_coordinates ?a ! i)) = Some d
               \<and> np_norm d < 0.001"
    if "Suc i < length (extract_coordinates ?a)" for i
  proof -
    from that have "i = 0" by (simp add: ec)
    then show ?thesis
      by (simp add: ec append_depth_def np_binop_def np_norm_def)
  qed
  then have deg: "\<forall>a\<in>set [?a]. \<forall>i. Suc i < length (extract_coordinates a) \<longrightarrow>
          (\<exists>d. np_binop (-) (append_depth (depth_end a) default_ExportOptions (extract_coordinates a ! Suc i))
                            (append_depth (depth_start a) default_ExportOptions (extract_coordinates a ! i)) = Some d
               \<and> np_norm d < 0.001)"
    by simp
  from gltf_export_failure[of ?env int16_digits default_ExportOptions "[?a]"] deg
  have a: "GLTF_export ?env int16_digits default_ExportOptions [?a] = (False, None)"
    by (elim conjE) (rule mp)
  have "List.map_filter (asset_to_mesh 8 int16_digits default_ExportOptions) [vertical_pipe] \<noteq> []"
    using vertical_pipe_map_filter[of 8] by auto
  with gltf_export_failure[of ?env int16_digits default_ExportOptions "[vertical_pipe]"]
  have b: "fst (GLTF_export ?env int16_digits default_ExportOptions [vertical_pipe])"
    by simp
  from a b show ?thesis by (rule conjI)
qed

text \<open>
  Claim C8 as stated fails in one direction: with the vertical pipe one solid is generated,
  but when writing the file raises, the adapter reports failure all the same.
\<close>

theorem gltf_write_failure_counterexample:
  "fst (GLTF_export \<lparr> trimesh_installed = True, mesh_write_ok = False \<rparr> int16_digits
       default_ExportOptions [vertical_pipe]) = False
   \<and> length (List.map_filter (asset_to_mesh 8 int16_digits default_ExportOptions) [vertical_pipe])
       = 1"
proof -
  from vertical_pipe_mesh[of 8] obtain c where
    "asset_to_mesh 8 int16_digits default_ExportOptions vertical_pipe = Some [c]" ..
  then show ?thesis
    by (simp add: List.map_filter_simps GLTF_export_def)
qed

section \<open>Properties of the external-tool-mediated mesh adapter\<close>







end
